theory Spec2Isabelle
  imports Complex_Main
begin

text \<open>
  The client of the loose-parts inventory (OPLPS): the aging classifier of the
  notification list and of the sidebar badge, the filtering after a fetch, the
  optimistic update after an issue-out or a damage report, the handlers around it
  and the validation in the two modals, as HOL functions, and the properties of the
  specification proved or refuted about them.
\<close>

section \<open>The runtime: time values and calendar arithmetic\<close>

text \<open>
  A JavaScript \<open>Date\<close> holds a time value: an integral number of milliseconds since
  1970-01-01T00:00:00Z, at most \<open>8.64e15\<close> in magnitude, or NaN (an invalid date).
  A time value is an \<open>int\<close> here and NaN is \<open>None\<close>. The calendar functions below are
  the abstract operations of ECMAScript (Day, DayFromYear, YearFromTime, MonthFromTime,
  DateFromTime, MakeDay, MakeDate, TimeClip), which \<open>getUTCFullYear\<close>, \<open>getUTCMonth\<close>,
  \<open>getUTCDate\<close> and \<open>Date.UTC\<close> are defined by.
\<close>

definition msPerDay :: int where
  "msPerDay = 86400000"

definition maxTime :: int where
  "maxTime = 8640000000000000"

definition TimeClip :: "int \<Rightarrow> int option" where
  "TimeClip t = (if \<bar>t\<bar> > maxTime then None else Some t)"

definition Day :: "int \<Rightarrow> int" where
  "Day t = t div msPerDay"

definition DaysInYear :: "int \<Rightarrow> int" where
  "DaysInYear y =
     (if y mod 4 \<noteq> 0 then 365
      else if y mod 100 \<noteq> 0 then 366
      else if y mod 400 \<noteq> 0 then 365
      else 366)"

definition DayFromYear :: "int \<Rightarrow> int" where
  "DayFromYear y =
     365 * (y - 1970) + (y - 1969) div 4 - (y - 1901) div 100 + (y - 1601) div 400"

text \<open>
  ECMAScript defines YearFromTime(t) as the largest year whose first day is not after
  \<open>t\<close>. \<open>YearFromDay\<close> computes it: the mean Gregorian year has 146097/400 days, which
  gives the year up to an error of one, corrected by comparing with \<open>DayFromYear\<close>
  (lemma \<open>YearFromDay_correct\<close> below).
\<close>

definition YearFromDay :: "int \<Rightarrow> int" where
  "YearFromDay d =
     (let y = 1970 + (400 * d) div 146097
      in if d < DayFromYear y then y - 1
         else if DayFromYear (y + 1) \<le> d then y + 1
         else y)"

definition YearFromTime :: "int \<Rightarrow> int" where
  "YearFromTime t = YearFromDay (Day t)"

definition leapDays :: "int \<Rightarrow> int" where
  "leapDays y = (if DaysInYear y = 366 then 1 else 0)"

definition DayWithinYear :: "int \<Rightarrow> int" where
  "DayWithinYear t = Day t - DayFromYear (YearFromTime t)"

text \<open>The day within the year on which month \<open>m\<close> (0 = January) begins.\<close>

definition monthStart :: "int \<Rightarrow> int \<Rightarrow> int" where
  "monthStart m l =
     (if m = 0 then 0 else if m = 1 then 31 else if m = 2 then 59 + l
      else if m = 3 then 90 + l else if m = 4 then 120 + l else if m = 5 then 151 + l
      else if m = 6 then 181 + l else if m = 7 then 212 + l else if m = 8 then 243 + l
      else if m = 9 then 273 + l else if m = 10 then 304 + l else 334 + l)"

definition MonthFromTime :: "int \<Rightarrow> int" where
  "MonthFromTime t =
     (let d = DayWithinYear t; l = leapDays (YearFromTime t)
      in if d < 31 then 0 else if d < 59 + l then 1 else if d < 90 + l then 2
         else if d < 120 + l then 3 else if d < 151 + l then 4 else if d < 181 + l then 5
         else if d < 212 + l then 6 else if d < 243 + l then 7 else if d < 273 + l then 8
         else if d < 304 + l then 9 else if d < 334 + l then 10 else 11)"

definition DateFromTime :: "int \<Rightarrow> int" where
  "DateFromTime t =
     DayWithinYear t - monthStart (MonthFromTime t) (leapDays (YearFromTime t)) + 1"

definition MakeTime :: "int \<Rightarrow> int \<Rightarrow> int \<Rightarrow> int \<Rightarrow> int" where
  "MakeTime h m s ms = h * 3600000 + m * 60000 + s * 1000 + ms"

definition MakeDay :: "int \<Rightarrow> int \<Rightarrow> int \<Rightarrow> int" where
  "MakeDay year month date =
     (let ym = year + month div 12; mn = month mod 12
      in DayFromYear ym + monthStart mn (leapDays ym) + date - 1)"

definition MakeDate :: "int \<Rightarrow> int \<Rightarrow> int" where
  "MakeDate day time = day * msPerDay + time"

definition getUTCFullYear :: "int \<Rightarrow> int" where
  "getUTCFullYear t = YearFromTime t"

definition getUTCMonth :: "int \<Rightarrow> int" where
  "getUTCMonth t = MonthFromTime t"

definition getUTCDate :: "int \<Rightarrow> int" where
  "getUTCDate t = DateFromTime t"

text \<open>
  \<open>Date.UTC(year, month, date)\<close>. A year from 0 to 99 is read as 1900 + year. The
  result passes through TimeClip in the runtime; \<open>DateUTC\<close> leaves that step out, since
  on the components of a time value within \<open>maxTime\<close> the result is within \<open>maxTime\<close>
  again (lemma \<open>utcStart_in_range\<close>), where TimeClip changes nothing. Every \<open>Date\<close>
  holds such a time value or NaN (lemma \<open>newDate_in_range\<close> for a parsed one).
\<close>

definition DateUTC :: "int \<Rightarrow> int \<Rightarrow> int \<Rightarrow> int" where
  "DateUTC year month date =
     (let yr = (if 0 \<le> year \<and> year \<le> 99 then 1900 + year else year)
      in MakeDate (MakeDay yr month date) (MakeTime 0 0 0 0))"

text \<open>
  \<open>new Date(s)\<close> for a string \<open>s\<close>: the runtime's parser gives a time value or NaN, and
  the constructor clips it. Which strings parse, beyond the ISO format, is left to the
  engine by ECMAScript, so the parser is a parameter \<open>parse\<close> of everything that
  constructs a date from a string.
\<close>

definition newDate :: "(string \<Rightarrow> int option) \<Rightarrow> string \<Rightarrow> int option" where
  "newDate parse s = (case parse s of None \<Rightarrow> None | Some t \<Rightarrow> TimeClip t)"

section \<open>The runtime: strings\<close>

definition startsWith :: "string \<Rightarrow> string \<Rightarrow> bool" where
  "startsWith s p = (take (length p) s = p)"

definition endsWith :: "string \<Rightarrow> string \<Rightarrow> bool" where
  "endsWith s p = (length p \<le> length s \<and> drop (length s - length p) s = p)"

definition includes_char :: "string \<Rightarrow> char \<Rightarrow> bool" where
  "includes_char s c = (c \<in> set s)"

text \<open>\<open>s.replace(a, b)\<close> with one-character strings: only the first \<open>a\<close> is replaced.\<close>

fun replace :: "string \<Rightarrow> char \<Rightarrow> char \<Rightarrow> string" where
  "replace [] a b = []"
| "replace (c # cs) a b = (if c = a then b # cs else c # replace cs a b)"

section \<open>The aging classifier\<close>

datatype bucket = Ok | Gt14 | Gt30 | Gt90

text \<open>
  The argument of the classifier as the runtime sees it: \<open>Nullish\<close> is null, undefined
  or another falsy value that is not a string, \<open>Str s\<close> a string, \<open>NonString\<close> a truthy
  value that is not a string (a number from the JSON body, say), on which calling
  \<open>startsWith\<close> throws a TypeError.
\<close>

datatype jsvalue = Nullish | Str string | NonString

datatype exn = TypeError

record classification =
  days :: "int option"
  status :: bucket

text \<open>The thresholds, in the order the source tests them (first match wins).\<close>

definition statusOfDays :: "int \<Rightarrow> bucket" where
  "statusOfDays diffDays =
     (if diffDays > 90 then Gt90
      else if diffDays > 30 then Gt30
      else if diffDays \<ge> 14 then Gt14
      else Ok)"

text \<open>
  \<open>Date.UTC(d.getUTCFullYear(), d.getUTCMonth(), d.getUTCDate())\<close>, computed by both
  classifiers for today and for the reference date.
\<close>

definition utcStart :: "int \<Rightarrow> int" where
  "utcStart t = DateUTC (getUTCFullYear t) (getUTCMonth t) (getUTCDate t)"

text \<open>The ISO string that \<open>getNotificationStatus\<close> hands to \<open>new Date\<close>.\<close>

definition isoReferenceDateString :: "string \<Rightarrow> string" where
  "isoReferenceDateString referenceDateString =
     (if includes_char referenceDateString CHR ''T'' then referenceDateString
      else replace referenceDateString CHR '' '' CHR ''T''
           @ (if endsWith referenceDateString ''Z'' then '''' else ''Z''))"

text \<open>
  The body of the \<open>try\<close> block of \<open>getNotificationStatus\<close> (NotificationList.tsx):
  \<open>now\<close> is the time value of \<open>new Date()\<close>.
\<close>

definition getNotificationStatus_try ::
  "(string \<Rightarrow> int option) \<Rightarrow> int \<Rightarrow> jsvalue \<Rightarrow> exn + classification" where
  "getNotificationStatus_try parse now referenceDateString =
     (case referenceDateString of
        Nullish \<Rightarrow> Inr \<lparr>days = None, status = Ok\<rparr>
      | NonString \<Rightarrow> Inl TypeError
      | Str s \<Rightarrow>
          if s = [] \<or> startsWith s ''0000-00-00'' then Inr \<lparr>days = None, status = Ok\<rparr>
          else
            (case newDate parse (isoReferenceDateString s) of
               None \<Rightarrow> Inr \<lparr>days = None, status = Ok\<rparr>
             | Some refDate \<Rightarrow>
                 let todayUTCStart = utcStart now;
                     refDateUTCStart = utcStart refDate;
                     diffTime = todayUTCStart - refDateUTCStart
                 in if diffTime < 0 then Inr \<lparr>days = Some 0, status = Ok\<rparr>
                    else
                      let diffDays = diffTime div (1000 * 60 * 60 * 24)
                      in Inr \<lparr>days = Some diffDays, status = statusOfDays diffDays\<rparr>))"

text \<open>\<open>getNotificationStatus\<close>: the \<open>catch\<close> turns every exception into the unset result.\<close>

definition getNotificationStatus ::
  "(string \<Rightarrow> int option) \<Rightarrow> int \<Rightarrow> jsvalue \<Rightarrow> classification" where
  "getNotificationStatus parse now referenceDateString =
     (case getNotificationStatus_try parse now referenceDateString of
        Inl e \<Rightarrow> \<lparr>days = None, status = Ok\<rparr>
      | Inr r \<Rightarrow> r)"

text \<open>
  \<open>getNotificationStatusForBadge\<close> (the sidebar). Its first test stands before the
  \<open>try\<close>, so a TypeError there reaches the caller; inside the \<open>try\<close> nothing throws
  on a string. It always replaces the first space and appends \<open>Z\<close>.
\<close>

definition getNotificationStatusForBadge ::
  "(string \<Rightarrow> int option) \<Rightarrow> int \<Rightarrow> jsvalue \<Rightarrow> exn + bucket" where
  "getNotificationStatusForBadge parse now createdOnDateString =
     (case createdOnDateString of
        Nullish \<Rightarrow> Inr Ok
      | NonString \<Rightarrow> Inl TypeError
      | Str s \<Rightarrow>
          if s = [] \<or> startsWith s ''0000-00-00'' then Inr Ok
          else
            (case newDate parse (replace s CHR '' '' CHR ''T'' @ ''Z'') of
               None \<Rightarrow> Inr Ok
             | Some itemCreationDate \<Rightarrow>
                 let todayUTCStart = utcStart now;
                     itemCreationDateUTCStart = utcStart itemCreationDate;
                     diffTime = todayUTCStart - itemCreationDateUTCStart
                 in if diffTime < 0 then Inr Ok
                    else
                      let diffDays = diffTime div (1000 * 60 * 60 * 24)
                      in if diffDays > 90 then Inr Gt90
                         else if diffDays > 30 then Inr Gt30
                         else if diffDays \<ge> 14 then Inr Gt14
                         else Inr Ok))"

definition severity :: "bucket \<Rightarrow> nat" where
  "severity b = (case b of Ok \<Rightarrow> 0 | Gt14 \<Rightarrow> 1 | Gt30 \<Rightarrow> 2 | Gt90 \<Rightarrow> 3)"


section \<open>A concrete parser: the ISO date-time format with the UTC designator\<close>

text \<open>
  Every engine must accept the ECMAScript date-time string format. \<open>parseDateTimeZ\<close>
  accepts its complete form \<open>YYYY-MM-DDTHH:mm:ssZ\<close> and nothing else (an engine may
  accept more). It stands for the parameter \<open>parse\<close> where a concrete string is
  evaluated; the general theorems hold for every parser.
\<close>

definition digitVal :: "char \<Rightarrow> int option" where
  "digitVal c =
     (let n = (of_char c :: nat) in if 48 \<le> n \<and> n \<le> 57 then Some (int n - 48) else None)"

fun digits :: "int \<Rightarrow> string \<Rightarrow> int option" where
  "digits acc [] = Some acc"
| "digits acc (c # cs) =
     (case digitVal c of None \<Rightarrow> None | Some v \<Rightarrow> digits (10 * acc + v) cs)"

definition field :: "string \<Rightarrow> nat \<Rightarrow> nat \<Rightarrow> int option" where
  "field s pos len = digits 0 (take len (drop pos s))"

definition DaysInMonth :: "int \<Rightarrow> int \<Rightarrow> int" where
  "DaysInMonth y m =
     (if m = 11 then 31 else monthStart (m + 1) (leapDays y) - monthStart m (leapDays y))"

definition parseDateTimeZ :: "string \<Rightarrow> int option" where
  "parseDateTimeZ s =
     (if length s = 20 \<and> s ! 4 = CHR ''-'' \<and> s ! 7 = CHR ''-'' \<and> s ! 10 = CHR ''T''
         \<and> s ! 13 = CHR '':'' \<and> s ! 16 = CHR '':'' \<and> s ! 19 = CHR ''Z''
      then
        (case (field s 0 4, field s 5 2, field s 8 2) of
           (Some y, Some mo, Some d) \<Rightarrow>
             (case (field s 11 2, field s 14 2, field s 17 2) of
                (Some h, Some mi, Some sec) \<Rightarrow>
                  if 1 \<le> mo \<and> mo \<le> 12 \<and> 1 \<le> d \<and> d \<le> DaysInMonth y (mo - 1)
                     \<and> h \<le> 23 \<and> mi \<le> 59 \<and> sec \<le> 59
                  then Some (MakeDate (MakeDay y (mo - 1) d) (MakeTime h mi sec 0))
                  else None
              | _ \<Rightarrow> None)
         | _ \<Rightarrow> None)
      else None)"


section \<open>Items, messages and page state\<close>

text \<open>
  A JavaScript number that holds a quantity is modelled by the rational it denotes,
  and NaN, where a conversion can produce it, is \<open>None\<close>. Every comparison the code
  makes is exact on doubles, so it is the comparison of the rationals. The one
  subtraction, \<open>actionItem.quantity - quantityChanged\<close>, rounds to a double: its
  sign is that of the exact difference, but its value is the exact difference only
  where that is a double again, as between safe integers (\<open>Number.isSafeInteger\<close>:
  an integer of magnitude at most \<open>2^53 - 1\<close>). A property that names the value of
  the remainder therefore assumes \<open>isSafeInteger\<close> of both operands.

  \<open>item\<close> holds the fields that \<open>NotificationItem\<close> (NotificationList.tsx) and
  \<open>ListItem\<close> (ListPartIem.tsx) share; the field \<open>id\<close> is \<open>item_id\<close> here.
\<close>

definition isSafeInteger :: "rat \<Rightarrow> bool" where
  "isSafeInteger q = (of_int \<lfloor>q\<rfloor> = q \<and> \<bar>q\<bar> \<le> 9007199254740991)"

record item =
  item_id :: string
  partNumber :: string
  quantity :: rat
  typeDescription :: string
  createdBy :: string
  approvedBy :: "string option"

record NotificationItem = item +
  returnDate :: jsvalue
  lastUpdated :: string
  daysSinceReturn :: "int option"
  notificationStatus :: bucket

record ListItem = item +
  statusDescription :: string
  lastUpdatedDisplay :: string
  lastUpdatedObject :: int
  approvedOnDisplay :: string
  approvedOnObject :: "int option"
  typeId :: "string option"
  statusId :: "string option"
  partCreatedDateDisplay :: string
  partCreatedDateObject :: int

text \<open>
  An element of \<open>jsonData.items\<close>. \<open>quantity_number\<close> is \<open>Number(apiItem.quantity)\<close>,
  the runtime's conversion of the number or string the server sent.
\<close>

record ApiListItem =
  part_id :: string
  part_number :: string
  quantity_number :: "rat option"
  type_description :: string
  status_description :: string
  updated_on :: string
  created_by_user :: "string option"
  approved_by_user :: "string option"
  approved_on :: "string option"
  created_on :: jsvalue

text \<open>
  What the browser reports when a field of a form does not meet its attributes:
  a required field is empty, a number is below \<open>min\<close>, or a number is not \<open>min\<close> plus
  a whole number of steps.
\<close>

datatype violation = ValueMissing | RangeUnderflow | StepMismatch

text \<open>
  The messages the code builds, with the values its template strings insert; how a
  number is printed plays no role. \<open>FieldInvalid\<close> is the browser's report on a field.
\<close>

datatype message =
    ServerText string
  | FieldInvalid violation
  | RuntimeTypeError
  | HttpError int
  | InvalidDataStructure
  | ApiError string int
  | IssuedOut rat string
  | MarkedDamaged rat string
  | NoItemSelected string
  | UserNotIdentified
  | CannotIssue rat rat
  | CannotMarkDamaged rat rat
  | InvalidIssueQuantity
  | IssueExceedsAvailable rat rat
  | InvalidDamageQuantity
  | DamageExceedsAvailable rat rat
  | RemarksRequired

text \<open>
  The state of \<open>NotificationListTable\<close> that the handlers read and write
  (\<open>allData\<close> is \<open>allNotificationData\<close>); \<open>ListPartItemTable\<close> has one more flag.
\<close>

record 'i page =
  allData :: "'i list"
  error :: "message option"
  successMessage :: "message option"
  isLoading :: bool
  isActionLoading :: bool
  isIssueOutModalOpen :: bool
  isDamageModalOpen :: bool
  actionItem :: "'i option"

record 'i list_page = "'i page" +
  isEditModalOpen :: bool

section \<open>Fetching: mapping and filtering\<close>

definition mapApiToNotificationItem ::
  "(string \<Rightarrow> int option) \<Rightarrow> int \<Rightarrow> ApiListItem \<Rightarrow> NotificationItem" where
  "mapApiToNotificationItem parse now apiItem =
     (let r = getNotificationStatus parse now (created_on apiItem)
      in \<lparr>item_id = part_id apiItem,
          partNumber = part_number apiItem,
          quantity = (case quantity_number apiItem of None \<Rightarrow> 0 | Some q \<Rightarrow> q),
          typeDescription = type_description apiItem,
          createdBy = (case created_by_user apiItem of None \<Rightarrow> ''N/A'' | Some u \<Rightarrow> u),
          approvedBy = approved_by_user apiItem,
          returnDate = created_on apiItem,
          lastUpdated = updated_on apiItem,
          daysSinceReturn = days r,
          notificationStatus = status r\<rparr>)"

text \<open>
  What \<open>fetch\<close> and \<open>response.json()\<close> gave: a rejection (an Error with a message), a
  response that is not \<open>ok\<close> (status code and the message of its body, if any), or the
  body \<open>jsonData\<close> with its \<open>status\<close>, \<open>items\<close> and \<open>message\<close>. The \<open>items\<close> are an
  array, null, another value whose \<open>length\<close> is 0, undefined (reading its \<open>length\<close>
  throws a TypeError), or anything else.
\<close>

datatype 'a json_items =
  ItemsArray "'a list" | ItemsNull | ItemsZeroLength | ItemsUndefined | ItemsOther

datatype parts_response =
    PartsRejected message
  | PartsNotOk int "string option"
  | PartsBody "string option" "ApiListItem json_items" "string option"

definition orElse :: "string option \<Rightarrow> message \<Rightarrow> message" where
  "orElse m fallback =
     (case m of None \<Rightarrow> fallback | Some t \<Rightarrow> if t = [] then fallback else ServerText t)"

text \<open>The items \<open>fetchData\<close> goes on with, or the error its \<open>catch\<close> receives.\<close>

definition fetchedItems :: "parts_response \<Rightarrow> message + ApiListItem list" where
  "fetchedItems response =
     (case response of
        PartsRejected e \<Rightarrow> Inl e
      | PartsNotOk code m \<Rightarrow> Inl (orElse m (HttpError code))
      | PartsBody st items m \<Rightarrow>
          if st = Some ''success'' then
            (case items of
               ItemsArray xs \<Rightarrow> Inr xs
             | ItemsNull \<Rightarrow> Inr []
             | ItemsZeroLength \<Rightarrow> Inr []
             | ItemsUndefined \<Rightarrow> Inl RuntimeTypeError
             | ItemsOther \<Rightarrow> Inl (orElse m InvalidDataStructure))
          else Inl (orElse m InvalidDataStructure))"

text \<open>\<open>fetchData\<close> of NotificationList.tsx.\<close>

definition fetchData ::
  "(string \<Rightarrow> int option) \<Rightarrow> int \<Rightarrow> NotificationItem page \<Rightarrow> bool \<Rightarrow> parts_response
     \<Rightarrow> NotificationItem page" where
  "fetchData parse now st showLoadingSpinner response =
     (let st1 = (if showLoadingSpinner
                 then st\<lparr>isLoading := True, error := None, successMessage := None\<rparr>
                 else st)\<lparr>error := None\<rparr>;
          st2 = (case fetchedItems response of
                   Inr items \<Rightarrow>
                     let mappedData = map (mapApiToNotificationItem parse now) items;
                         approvedItems =
                           filter (\<lambda>item. approvedBy item \<noteq> None \<and> quantity item > 0) mappedData;
                         overdueItems =
                           filter (\<lambda>item. notificationStatus item \<noteq> Ok) approvedItems
                     in st1\<lparr>allData := overdueItems\<rparr>
                 | Inl message \<Rightarrow> st1\<lparr>error := Some message, allData := []\<rparr>)
      in if showLoadingSpinner then st2\<lparr>isLoading := False\<rparr> else st2)"

text \<open>
  \<open>fetchData\<close> of ListPartIem.tsx. \<open>mapApiToState\<close> builds the dates and display
  strings of a \<open>ListItem\<close>; the filter does not depend on how, so it is a parameter.
\<close>

definition fetchData_list ::
  "(ApiListItem \<Rightarrow> ListItem) \<Rightarrow> ListItem list_page \<Rightarrow> bool \<Rightarrow> parts_response
     \<Rightarrow> ListItem list_page" where
  "fetchData_list mapApiToState st showLoadingSpinner response =
     (let st1 = (if showLoadingSpinner then st\<lparr>isLoading := True\<rparr> else st)\<lparr>error := None\<rparr>;
          st2 = (case fetchedItems response of
                   Inr items \<Rightarrow>
                     let mappedData = map mapApiToState items;
                         approvedItems =
                           filter (\<lambda>item. approvedBy item \<noteq> None \<and> quantity item > 0) mappedData
                     in st1\<lparr>allData := approvedItems\<rparr>
                 | Inl message \<Rightarrow> st1\<lparr>error := Some message, allData := []\<rparr>)
      in if showLoadingSpinner then st2\<lparr>isLoading := False\<rparr> else st2)"


section \<open>The optimistic update after a successful action\<close>

text \<open>
  The update both pages apply to their collection once the server has confirmed an
  issue-out or a damage report (NotificationList.tsx, \<open>handlePostEventApiAction\<close>;
  ListPartIem.tsx, \<open>handlePostApiAction\<close>): \<open>selected\<close> is the handler's \<open>actionItem\<close>,
  the item the modal was opened for, \<open>prevData\<close> the collection the state updater
  receives. \<open>remainingQuantity\<close> is the exact difference here; the code's is that
  difference rounded to a double, of the same sign, and equal to it between safe
  integers.
\<close>

definition optimisticUpdate ::
  "'a item_scheme \<Rightarrow> rat \<Rightarrow> 'a item_scheme list \<Rightarrow> 'a item_scheme list" where
  "optimisticUpdate selected quantityChanged prevData =
     (let currentActionItemId = item_id selected;
          remainingQuantity = quantity selected - quantityChanged
      in if remainingQuantity \<le> 0
         then filter (\<lambda>item. item_id item \<noteq> currentActionItemId) prevData
         else map (\<lambda>item. if item_id item = currentActionItemId
                          then item\<lparr>quantity := remainingQuantity\<rparr>
                          else item) prevData)"

text \<open>
  The answer to a POST: \<open>fetch\<close> or \<open>response.json()\<close> rejects with an Error, or there
  is a response with \<open>response.ok\<close>, \<open>response.status\<close>, and the \<open>status\<close> and \<open>message\<close>
  of its body.
\<close>

datatype post_response =
    Rejected message
  | Response bool int "string option" "string option"

text \<open>The error thrown inside the \<open>try\<close> block, if any.\<close>

definition postFailure :: "string \<Rightarrow> post_response \<Rightarrow> message option" where
  "postFailure actionDesc response =
     (case response of
        Rejected e \<Rightarrow> Some e
      | Response ok code result_status result_message \<Rightarrow>
          if \<not> ok \<or> result_status \<noteq> Some ''success''
          then Some (orElse result_message (ApiError actionDesc code))
          else None)"

definition successMsg :: "string \<Rightarrow> rat \<Rightarrow> 'a item_scheme \<Rightarrow> message" where
  "successMsg actionDesc quantityChanged selected =
     (if actionDesc = ''issue out item''
      then IssuedOut quantityChanged (partNumber selected)
      else MarkedDamaged quantityChanged (partNumber selected))"

definition closeModal :: "('i, 'z) page_scheme \<Rightarrow> ('i, 'z) page_scheme" where
  "closeModal st =
     st\<lparr>isIssueOutModalOpen := False, isDamageModalOpen := False, actionItem := None\<rparr>"

text \<open>
  \<open>handlePostEventApiAction\<close> of NotificationList.tsx: the state after the handler
  has run to its end, and the error it throws to its caller, if any. The timer that
  clears the success message four seconds later is a later event.
\<close>

definition handlePostEventApiAction ::
  "NotificationItem page \<Rightarrow> string \<Rightarrow> rat \<Rightarrow> post_response
     \<Rightarrow> NotificationItem page \<times> message option" where
  "handlePostEventApiAction st actionDesc quantityChanged response =
     (case actionItem st of
        None \<Rightarrow> (st, Some (NoItemSelected actionDesc))
      | Some item \<Rightarrow>
          let st1 = st\<lparr>error := None, successMessage := None, isActionLoading := True\<rparr>
          in (case postFailure actionDesc response of
                Some err \<Rightarrow>
                  (st1\<lparr>error := Some err, isActionLoading := False, actionItem := None\<rparr>,
                   Some err)
              | None \<Rightarrow>
                  let st2 = st1\<lparr>successMessage :=
                                  Some (successMsg actionDesc quantityChanged item)\<rparr>;
                      st3 = closeModal st2;
                      st4 = st3\<lparr>allData := optimisticUpdate item quantityChanged (allData st3)\<rparr>
                  in (st4\<lparr>isActionLoading := False, actionItem := None\<rparr>, None)))"

definition closeModal_list :: "'i list_page \<Rightarrow> 'i list_page" where
  "closeModal_list st =
     st\<lparr>isIssueOutModalOpen := False, isDamageModalOpen := False, actionItem := None,
        isEditModalOpen := False\<rparr>"

text \<open>\<open>handlePostApiAction\<close> of ListPartIem.tsx.\<close>

definition handlePostApiAction ::
  "ListItem list_page \<Rightarrow> string \<Rightarrow> rat \<Rightarrow> post_response
     \<Rightarrow> ListItem list_page \<times> message option" where
  "handlePostApiAction st actionDesc quantityChanged response =
     (case actionItem st of
        None \<Rightarrow> (st, Some (NoItemSelected actionDesc))
      | Some item \<Rightarrow>
          let st1 = st\<lparr>error := None, successMessage := None, isActionLoading := True,
                       actionItem := Some item\<rparr>
          in (case postFailure actionDesc response of
                Some err \<Rightarrow>
                  (st1\<lparr>error := Some err, isActionLoading := False, actionItem := None\<rparr>,
                   Some err)
              | None \<Rightarrow>
                  let st2 = st1\<lparr>successMessage :=
                                  Some (successMsg actionDesc quantityChanged item)\<rparr>;
                      st3 = closeModal_list st2;
                      st4 = st3\<lparr>allData := optimisticUpdate item quantityChanged (allData st3)\<rparr>
                  in (st4\<lparr>isActionLoading := False, actionItem := None\<rparr>, None)))"

text \<open>
  What the two pages render of an error: the banner, and the modals, which show
  their own error text while they are rendered (NotificationList.tsx, the JSX after
  \<open>Display Error and Success Messages\<close> and at the end of the component; the same
  conditions in ListPartIem.tsx, with the edit modal's flag added to the banner's).
\<close>

definition errorBannerShown :: "('i, 'z) page_scheme \<Rightarrow> bool" where
  "errorBannerShown st =
     (error st \<noteq> None \<and> \<not> isIssueOutModalOpen st \<and> \<not> isDamageModalOpen st)"

definition errorBannerShown_list :: "'i list_page \<Rightarrow> bool" where
  "errorBannerShown_list st =
     (error st \<noteq> None \<and> \<not> isEditModalOpen st \<and> \<not> isIssueOutModalOpen st
      \<and> \<not> isDamageModalOpen st)"

definition issueOutModalRendered :: "('i, 'z) page_scheme \<Rightarrow> bool" where
  "issueOutModalRendered st = (isIssueOutModalOpen st \<and> actionItem st \<noteq> None)"

definition damageModalRendered :: "('i, 'z) page_scheme \<Rightarrow> bool" where
  "damageModalRendered st = (isDamageModalOpen st \<and> actionItem st \<noteq> None)"

definition editModalRendered :: "'i list_page \<Rightarrow> bool" where
  "editModalRendered st = (isEditModalOpen st \<and> actionItem st \<noteq> None)"

text \<open>An error message is on the screen: in the banner or inside a rendered modal.\<close>

definition errorVisible :: "('i, 'z) page_scheme \<Rightarrow> bool" where
  "errorVisible st =
     (errorBannerShown st \<or> issueOutModalRendered st \<or> damageModalRendered st)"

definition errorVisible_list :: "'i list_page \<Rightarrow> bool" where
  "errorVisible_list st =
     (errorBannerShown_list st \<or> editModalRendered st \<or> issueOutModalRendered st
      \<or> damageModalRendered st)"


section \<open>Submitting an issue-out or a damage report\<close>

definition isWhiteSpace :: "char \<Rightarrow> bool" where
  "isWhiteSpace c =
     (c \<in> set [CHR 0x09, CHR 0x0A, CHR 0x0B, CHR 0x0C, CHR 0x0D, CHR 0x20, CHR 0xA0])"

definition trim :: "string \<Rightarrow> string" where
  "trim s = rev (dropWhile isWhiteSpace (rev (dropWhile isWhiteSpace s)))"

text \<open>The \<open>itemData\<close> prop of the two modals; its \<open>quantity\<close> is the available stock.\<close>

record ItemData =
  data_id :: string
  data_quantity :: rat
  data_partNumber :: string
  partDescription :: string
  dateOfReturn :: jsvalue

record IssueOutPayload =
  quantity_issued :: rat
  issue_remarks :: "string option"


text \<open>
  \<open>handleSubmit\<close> of IssueOutItemModal.tsx, up to the call of \<open>onSubmit\<close>:
  \<open>quantityNum\<close> is \<open>Number(quantity)\<close> (\<open>None\<close> is NaN). \<open>Inl\<close> is the error the modal
  shows when it returns early; \<open>Inr\<close> is the payload it calls \<open>onSubmit\<close> with.
\<close>

definition IssueOutItemModal_handleSubmit ::
  "rat option \<Rightarrow> string \<Rightarrow> ItemData option \<Rightarrow> message + IssueOutPayload" where
  "IssueOutItemModal_handleSubmit quantityNum remarks itemData =
     (case quantityNum of
        None \<Rightarrow> Inl InvalidIssueQuantity
      | Some q \<Rightarrow>
          if q \<le> 0 then Inl InvalidIssueQuantity
          else
            (case itemData of
               None \<Rightarrow>
                 Inr \<lparr>quantity_issued = q,
                      issue_remarks = (if trim remarks = [] then None else Some (trim remarks))\<rparr>
             | Some d \<Rightarrow>
                 if q > data_quantity d then Inl (IssueExceedsAvailable q (data_quantity d))
                 else
                   Inr \<lparr>quantity_issued = q,
                        issue_remarks =
                          (if trim remarks = [] then None else Some (trim remarks))\<rparr>))"


text \<open>
  The arguments with which a page calls its POST handler, which then calls \<open>fetch\<close>
  with \<open>apiUrl\<close> and the payload (\<open>part_id\<close>, quantity, remarks).
\<close>

datatype api_url = ISSUE_API_URL | DAMAGE_API_URL

record request =
  apiUrl :: api_url
  payload_part_id :: string
  payload_quantity :: rat
  payload_remarks :: "string option"
  actionDesc :: string
  quantityChanged :: rat

text \<open>
  \<open>handleIssueOutSubmitForNotification\<close> and \<open>handleDamageSubmitForNotification\<close>
  (NotificationList.tsx): \<open>userId\<close> is the session's \<open>user_id\<close>. \<open>Inl\<close> is the Error
  thrown before any request; \<open>Inr\<close> is the call of \<open>handlePostEventApiAction\<close>.
\<close>

definition handleIssueOutSubmitForNotification ::
  "NotificationItem page \<Rightarrow> string option \<Rightarrow> IssueOutPayload
     \<Rightarrow> NotificationItem page \<times> (message + request)" where
  "handleIssueOutSubmitForNotification st userId modalPayload =
     (case actionItem st of
        None \<Rightarrow> (st, Inl (NoItemSelected ''issuing''))
      | Some item \<Rightarrow>
          if userId = None \<or> userId = Some [] then
            (st\<lparr>error := Some UserNotIdentified\<rparr>, Inl UserNotIdentified)
          else if quantity_issued modalPayload > quantity item then
            (st\<lparr>error := Some (CannotIssue (quantity_issued modalPayload) (quantity item))\<rparr>,
             Inl (CannotIssue (quantity_issued modalPayload) (quantity item)))
          else
            (st, Inr \<lparr>apiUrl = ISSUE_API_URL,
                      payload_part_id = item_id item,
                      payload_quantity = quantity_issued modalPayload,
                      payload_remarks = issue_remarks modalPayload,
                      actionDesc = ''issue out item'',
                      quantityChanged = quantity_issued modalPayload\<rparr>))"


text \<open>The \<open>itemData\<close> the notification page renders a modal with.\<close>

definition itemDataOf :: "NotificationItem \<Rightarrow> ItemData" where
  "itemDataOf item =
     \<lparr>data_id = item_id item,
      data_quantity = quantity item,
      data_partNumber = partNumber item,
      partDescription = typeDescription item,
      dateOfReturn = returnDate item\<rparr>"

text \<open>
  The form of each modal is \<open><form onSubmit={handleSubmit}>\<close> without \<open>noValidate\<close>, so
  the browser validates its fields when the form is submitted and, if one is
  invalid, reports that to the user and does not call \<open>handleSubmit\<close>.

  The quantity field is \<open><input type="number" required min="1">\<close> with no \<open>step\<close>, so
  the step is 1 and counts from \<open>min\<close>. Its value is empty or a number (a number
  input holds nothing else); \<open>None\<close> is the empty field. The date field is read-only,
  which exempts it from validation.
\<close>

definition quantityFieldViolation :: "rat option \<Rightarrow> violation option" where
  "quantityFieldViolation fieldValue =
     (case fieldValue of
        None \<Rightarrow> Some ValueMissing
      | Some q \<Rightarrow>
          if q < 1 then Some RangeUnderflow
          else if of_int \<lfloor>q - 1\<rfloor> \<noteq> q - 1 then Some StepMismatch
          else None)"


text \<open>\<open>Number(quantity)\<close> for the field's value: the empty string converts to 0.\<close>

definition Number_quantity :: "rat option \<Rightarrow> rat option" where
  "Number_quantity fieldValue = (case fieldValue of None \<Rightarrow> Some 0 | Some q \<Rightarrow> Some q)"

text \<open>
  A submission on the notification page from the form to the request: the browser's
  validation of the fields in their order, the modal's \<open>handleSubmit\<close>, then the
  page's handler as its \<open>onSubmit\<close>. \<open>Inl\<close> is a validation error reported and no
  request; \<open>Inr\<close> is the request sent. The submit button is disabled for some
  values (no quantity, a quantity that is not positive or is over the stock, a blank
  remark in the damage modal), which only removes submissions: nothing below relies
  on it.
\<close>

definition submitIssueOut ::
  "NotificationItem page \<Rightarrow> string option \<Rightarrow> rat option \<Rightarrow> string \<Rightarrow> message + request" where
  "submitIssueOut st userId fieldValue remarks =
     (case quantityFieldViolation fieldValue of
        Some v \<Rightarrow> Inl (FieldInvalid v)
      | None \<Rightarrow>
          (case IssueOutItemModal_handleSubmit (Number_quantity fieldValue) remarks
                  (map_option itemDataOf (actionItem st)) of
             Inl err \<Rightarrow> Inl err
           | Inr payload \<Rightarrow> snd (handleIssueOutSubmitForNotification st userId payload)))"





section \<open>The actionable predicate\<close>

text \<open>An item is actionable when it has an approver and a positive quantity.\<close>

definition actionable :: "'a item_scheme \<Rightarrow> bool" where
  "actionable item = (approvedBy item \<noteq> None \<and> quantity item > 0)"

section \<open>Sample data\<close>

text \<open>An approved item with the given identifier and quantity, for concrete evaluations.\<close>

definition sampleItem :: "string \<Rightarrow> rat \<Rightarrow> item" where
  "sampleItem i q =
     \<lparr>item_id = i, partNumber = ''PN-'' @ i, quantity = q, typeDescription = ''Valve'',
      createdBy = ''U2'', approvedBy = Some ''U1''\<rparr>"

definition sampleNotification :: "string \<Rightarrow> rat \<Rightarrow> NotificationItem" where
  "sampleNotification i q =
     \<lparr>item_id = i, partNumber = ''PN-'' @ i, quantity = q, typeDescription = ''Valve'',
      createdBy = ''U2'', approvedBy = Some ''U1'',
      returnDate = Str ''2024-01-01 00:00:00'', lastUpdated = ''2024-01-02 00:00:00'',
      daysSinceReturn = Some 152, notificationStatus = Gt90\<rparr>"

definition sampleListItem :: "string \<Rightarrow> rat \<Rightarrow> ListItem" where
  "sampleListItem i q =
     \<lparr>item_id = i, partNumber = ''PN-'' @ i, quantity = q, typeDescription = ''Valve'',
      createdBy = ''U2'', approvedBy = Some ''U1'',
      statusDescription = ''Approved'', lastUpdatedDisplay = ''02/01/2024'',
      lastUpdatedObject = 1704153600000, approvedOnDisplay = ''02/01/2024'',
      approvedOnObject = Some 1704153600000, typeId = Some ''1'', statusId = Some ''2'',
      partCreatedDateDisplay = ''01/01/2024'', partCreatedDateObject = 1704067200000\<rparr>"

definition sampleApiItem :: "string \<Rightarrow> rat option \<Rightarrow> string option \<Rightarrow> ApiListItem" where
  "sampleApiItem i q approver =
     \<lparr>part_id = i, part_number = ''PN-'' @ i, quantity_number = q,
      type_description = ''Valve'', status_description = ''Approved'',
      updated_on = ''2024-01-02 00:00:00'', created_by_user = Some ''U2'',
      approved_by_user = approver, approved_on = Some ''2024-01-02 00:00:00'',
      created_on = Str ''2024-01-01 00:00:00''\<rparr>"

text \<open>
  The notification page with the issue-out modal open on \<open>P1\<close> (quantity 5), and
  the part list page likewise.
\<close>

definition openPage :: "NotificationItem page" where
  "openPage =
     \<lparr>allData = [sampleNotification ''P1'' 5, sampleNotification ''P2'' 7],
      error = None, successMessage = None, isLoading = False, isActionLoading = False,
      isIssueOutModalOpen = True, isDamageModalOpen = False,
      actionItem = Some (sampleNotification ''P1'' 5)\<rparr>"

definition openListPage :: "ListItem list_page" where
  "openListPage =
     \<lparr>allData = [sampleListItem ''P1'' 5, sampleListItem ''P2'' 7],
      error = None, successMessage = None, isLoading = False, isActionLoading = False,
      isIssueOutModalOpen = True, isDamageModalOpen = False,
      actionItem = Some (sampleListItem ''P1'' 5), isEditModalOpen = False\<rparr>"

section \<open>Calendar arithmetic: the year is right, and a day start is the day\<close>

lemma div_lower: "0 < (k::int) \<Longrightarrow> x - (k - 1) \<le> k * (x div k)"
  using pos_mod_bound [of k x] minus_mod_eq_mult_div [of x k] by linarith

lemma div_upper: "0 < (k::int) \<Longrightarrow> k * (x div k) \<le> x"
  using pos_mod_sign [of k x] minus_mod_eq_mult_div [of x k] by linarith

lemma leap_sum_upper:
  fixes A B C y :: int
  assumes "4 * A \<le> y - 1969" "y - 1901 - 99 \<le> 100 * B" "400 * C \<le> y - 1601"
  shows "400 * (365 * (y - 1970) + A - B + C) \<le> 146097 * (y - 1970) + 600"
  using assms by (simp add: algebra_simps)

lemma leap_sum_lower:
  fixes A B C y :: int
  assumes "y - 1969 - 3 \<le> 4 * A" "100 * B \<le> y - 1901" "y - 1601 - 399 \<le> 400 * C"
  shows "146097 * (y - 1970) - 600 \<le> 400 * (365 * (y - 1970) + A - B + C)"
  using assms by (simp add: algebra_simps)

lemma DayFromYear_upper: "400 * DayFromYear y \<le> 146097 * (y - 1970) + 600"
  unfolding DayFromYear_def
  using leap_sum_upper [OF div_upper [of 4 "y - 1969"] _ div_upper [of 400 "y - 1601"],
      of "(y - 1901) div 100"] div_lower [of 100 "y - 1901"]
  by simp

lemma DayFromYear_lower: "146097 * (y - 1970) - 600 \<le> 400 * DayFromYear y"
  unfolding DayFromYear_def
  using leap_sum_lower [OF _ div_upper [of 100 "y - 1901"], of y "(y - 1969) div 4"]
    div_lower [of 4 "y - 1969"] div_lower [of 400 "y - 1601"]
  by simp

lemma year_estimate:
  fixes d q D1 D2 :: int
  assumes "146097 * q \<le> 400 * d" "400 * d < 146097 * q + 146097"
    and "400 * D1 \<le> 146097 * (q - 1) + 600" "146097 * (q + 2) - 600 \<le> 400 * D2"
  shows "D1 \<le> d \<and> d < D2"
  using assms by (simp add: algebra_simps)

lemma YearFromDay_correct:
  "DayFromYear (YearFromDay d) \<le> d \<and> d < DayFromYear (YearFromDay d + 1)"
proof -
  define q where "q = (400 * d) div 146097"
  define y where "y = 1970 + q"
  have lo: "146097 * q \<le> 400 * d"
    unfolding q_def by (rule div_upper) simp
  have hi: "400 * d < 146097 * q + 146097"
    unfolding q_def using div_lower [of 146097 "400 * d"] by simp
  have u: "400 * DayFromYear (y - 1) \<le> 146097 * (q - 1) + 600"
    using DayFromYear_upper [of "y - 1"] unfolding y_def by simp
  have l: "146097 * (q + 2) - 600 \<le> 400 * DayFromYear (y + 2)"
    using DayFromYear_lower [of "y + 2"] unfolding y_def by simp
  have ab: "DayFromYear (y - 1) \<le> d \<and> d < DayFromYear (y + 2)"
    by (rule year_estimate [OF lo hi u l])
  have c: "y + 1 + 1 = y + 2" by simp
  have yd: "YearFromDay d = (if d < DayFromYear y then y - 1
         else if DayFromYear (y + 1) \<le> d then y + 1 else y)"
    unfolding YearFromDay_def y_def q_def Let_def ..
  show ?thesis
    using ab unfolding yd by (simp add: c)
qed

lemma YearFromDay_lower_bound:
  assumes "- 91 \<le> d"
  shows "1968 \<le> YearFromDay d"
proof -
  have "- 36400 \<le> 400 * d" using assms by simp
  then have "(- 36400) div 146097 \<le> (400 * d) div 146097"
    by (rule zdiv_mono1) simp
  then have q: "- 1 \<le> (400 * d) div 146097" by simp
  show ?thesis
    unfolding YearFromDay_def Let_def using q by (simp split: if_splits)
qed

lemma MonthFromTime_range: "0 \<le> MonthFromTime t \<and> MonthFromTime t \<le> 11"
  unfolding MonthFromTime_def Let_def by simp

lemma MakeDay_roundtrip:
  "MakeDay (YearFromTime t) (MonthFromTime t) (DateFromTime t) = Day t"
proof -
  have m: "MonthFromTime t div 12 = 0" "MonthFromTime t mod 12 = MonthFromTime t"
    using MonthFromTime_range [of t] by simp_all
  show ?thesis
    unfolding MakeDay_def Let_def m DateFromTime_def DayWithinYear_def by simp
qed

lemma utcStart_eq_Day:
  assumes "\<not> (0 \<le> YearFromTime t \<and> YearFromTime t \<le> 99)"
  shows "utcStart t = Day t * msPerDay"
  using assms MakeDay_roundtrip [of t]
  unfolding utcStart_def DateUTC_def getUTCFullYear_def getUTCMonth_def getUTCDate_def
    MakeDate_def MakeTime_def Let_def
  by auto

lemma Day_lower: "- 91 * msPerDay \<le> t \<Longrightarrow> - 91 \<le> Day t"
  unfolding Day_def msPerDay_def
  using zdiv_mono1 [of "- 91 * 86400000" t 86400000] by simp

text \<open>
  A time value in the years 0 to 99 shows the two-digit rule of \<open>Date.UTC\<close>: the day
  start computed for 0099-12-27T10:00:00Z is 1999-12-27T00:00:00Z. From 91 days
  before 1970 onwards the rule is out of reach.
\<close>

lemma utcStart_two_digit_year:
  "parseDateTimeZ ''0099-12-27T10:00:00Z'' = Some (- 59011855200000)
   \<and> utcStart (- 59011855200000) = 946252800000
   \<and> parseDateTimeZ ''1999-12-27T00:00:00Z'' = Some 946252800000"
  by code_simp

lemma utcStart_recent:
  assumes "- 91 * msPerDay \<le> t"
  shows "utcStart t = Day t * msPerDay"
proof (rule utcStart_eq_Day)
  have "1968 \<le> YearFromTime t"
    unfolding YearFromTime_def by (rule YearFromDay_lower_bound [OF Day_lower [OF assms]])
  then show "\<not> (0 \<le> YearFromTime t \<and> YearFromTime t \<le> 99)" by simp
qed


lemma DayWithinYear_range: "0 \<le> DayWithinYear t \<and> DayWithinYear t < 368"
proof -
  define y where "y = YearFromTime t"
  have c: "DayFromYear y \<le> Day t \<and> Day t < DayFromYear (y + 1)"
    unfolding y_def YearFromTime_def by (rule YearFromDay_correct)
  have "400 * DayFromYear (y + 1) \<le> 400 * DayFromYear y + 147297"
    using DayFromYear_upper [of "y + 1"] DayFromYear_lower [of y] by (simp add: algebra_simps)
  then have "DayFromYear (y + 1) < DayFromYear y + 369" by simp
  then show ?thesis
    using c unfolding DayWithinYear_def y_def [symmetric] by simp
qed

lemma utcStart_in_range:
  assumes "\<bar>t\<bar> \<le> maxTime"
  shows "\<bar>utcStart t\<bar> \<le> maxTime"
proof (cases "0 \<le> YearFromTime t \<and> YearFromTime t \<le> 99")
  case False
  have eq: "utcStart t = Day t * msPerDay" by (rule utcStart_eq_Day [OF False])
  have up: "msPerDay * Day t \<le> t"
    unfolding Day_def by (rule div_upper) (simp add: msPerDay_def)
  have "- 100000000 * msPerDay \<le> t"
    using assms unfolding maxTime_def msPerDay_def by simp
  then have "(- 100000000 * msPerDay) div msPerDay \<le> t div msPerDay"
    by (rule zdiv_mono1) (simp add: msPerDay_def)
  then have lo: "- 100000000 \<le> Day t"
    unfolding Day_def msPerDay_def by simp
  show ?thesis
    unfolding eq using up lo assms unfolding maxTime_def msPerDay_def by simp
next
  case True
  define y where "y = YearFromTime t"
  define l where "l = leapDays (1900 + y)"
  define l' where "l' = leapDays y"
  define m where "m = MonthFromTime t"
  have ls: "0 \<le> l" "l \<le> 1" "0 \<le> l'" "l' \<le> 1"
    unfolding l_def l'_def leapDays_def by simp_all
  have mr: "m div 12 = 0" "m mod 12 = m"
    unfolding m_def using MonthFromTime_range [of t] by simp_all
  have ms: "monthStart m l - monthStart m l' \<le> 1" "- 1 \<le> monthStart m l - monthStart m l'"
    using ls unfolding monthStart_def by simp_all
  have dw: "0 \<le> DayWithinYear t" "DayWithinYear t < 368"
    using DayWithinYear_range [of t] by simp_all
  have yr: "1900 \<le> 1900 + y" "1900 + y \<le> 1999" using True unfolding y_def by simp_all
  have dfy: "- 30000 \<le> DayFromYear (1900 + y)" "DayFromYear (1900 + y) \<le> 12000"
    using DayFromYear_upper [of "1900 + y"] DayFromYear_lower [of "1900 + y"] yr by simp_all
  have md: "MakeDay (1900 + y) m (DateFromTime t)
      = DayFromYear (1900 + y) + (monthStart m l - monthStart m l') + DayWithinYear t"
    unfolding MakeDay_def Let_def mr DateFromTime_def m_def [symmetric] y_def [symmetric]
      l'_def [symmetric] by (simp add: l_def)
  have eq: "utcStart t = MakeDay (1900 + y) m (DateFromTime t) * msPerDay"
    using True
    unfolding utcStart_def DateUTC_def getUTCFullYear_def getUTCMonth_def getUTCDate_def
      MakeDate_def MakeTime_def Let_def y_def m_def by simp
  have "- 31000 \<le> MakeDay (1900 + y) m (DateFromTime t)"
    "MakeDay (1900 + y) m (DateFromTime t) \<le> 13000"
    unfolding md using ms dw dfy by simp_all
  then show ?thesis
    unfolding eq maxTime_def msPerDay_def by simp
qed


text \<open>The date that \<open>new Date(s)\<close> holds, if valid, is within \<open>maxTime\<close>.\<close>

lemma newDate_in_range:
  "newDate parse s = Some t \<Longrightarrow> \<bar>t\<bar> \<le> maxTime"
  unfolding newDate_def TimeClip_def by (simp split: option.splits if_splits)

section \<open>The classifier on valid dates\<close>

lemma statusOfDays_monotone:
  "d1 \<le> d2 \<Longrightarrow> severity (statusOfDays d1) \<le> severity (statusOfDays d2)"
  unfolding statusOfDays_def severity_def by auto

lemma getNotificationStatus_valid:
  assumes "s \<noteq> []" "\<not> startsWith s ''0000-00-00''"
    and "newDate parse (isoReferenceDateString s) = Some refDate"
  shows "getNotificationStatus parse now (Str s) =
     (if utcStart now - utcStart refDate < 0 then \<lparr>days = Some 0, status = Ok\<rparr>
      else \<lparr>days = Some ((utcStart now - utcStart refDate) div msPerDay),
            status = statusOfDays ((utcStart now - utcStart refDate) div msPerDay)\<rparr>)"
  using assms
  unfolding getNotificationStatus_def getNotificationStatus_try_def Let_def msPerDay_def
  by simp

lemma getNotificationStatus_cases:
  "getNotificationStatus parse now v = \<lparr>days = None, status = Ok\<rparr>
   \<or> (\<exists>d. 0 \<le> d \<and> getNotificationStatus parse now v = \<lparr>days = Some d, status = statusOfDays d\<rparr>)"
proof (cases v)
  case (Str s)
  show ?thesis
  proof (cases "s = [] \<or> startsWith s ''0000-00-00''
      \<or> newDate parse (isoReferenceDateString s) = None")
    case True
    then show ?thesis
      unfolding Str getNotificationStatus_def getNotificationStatus_try_def by auto
  next
    case False
    then obtain refDate where r: "newDate parse (isoReferenceDateString s) = Some refDate"
      by auto
    have s: "s \<noteq> []" "\<not> startsWith s ''0000-00-00''" using False by simp_all
    have z: "statusOfDays 0 = Ok" unfolding statusOfDays_def by simp
    show ?thesis
    proof (cases "utcStart now - utcStart refDate < 0")
      case True
      then show ?thesis
        unfolding Str getNotificationStatus_valid [OF s r] using z by auto
    next
      case False
      then have "0 \<le> (utcStart now - utcStart refDate) div msPerDay"
        unfolding msPerDay_def by (simp add: pos_imp_zdiv_nonneg_iff)
      then show ?thesis
        unfolding Str getNotificationStatus_valid [OF s r] using False by auto
    qed
  qed
qed (simp_all add: getNotificationStatus_def getNotificationStatus_try_def)

lemma diffTime_days:
  assumes "- 91 * msPerDay \<le> now" "- 91 * msPerDay \<le> refDate"
  shows "utcStart now - utcStart refDate = (Day now - Day refDate) * msPerDay"
  unfolding utcStart_recent [OF assms(1)] utcStart_recent [OF assms(2)]
  by (simp add: algebra_simps)

lemma getNotificationStatus_recent:
  assumes "s \<noteq> []" "\<not> startsWith s ''0000-00-00''"
    and "newDate parse (isoReferenceDateString s) = Some refDate"
    and "- 91 * msPerDay \<le> now" "- 91 * msPerDay \<le> refDate"
  shows "getNotificationStatus parse now (Str s) =
     (if Day now < Day refDate then \<lparr>days = Some 0, status = Ok\<rparr>
      else \<lparr>days = Some (Day now - Day refDate),
            status = statusOfDays (Day now - Day refDate)\<rparr>)"
proof -
  have d: "utcStart now - utcStart refDate = (Day now - Day refDate) * msPerDay"
    by (rule diffTime_days [OF assms(4,5)])
  have neg: "((Day now - Day refDate) * msPerDay < 0) = (Day now < Day refDate)"
    unfolding msPerDay_def by simp
  have q: "(Day now - Day refDate) * msPerDay div msPerDay = Day now - Day refDate"
    unfolding msPerDay_def by simp
  show ?thesis
    unfolding getNotificationStatus_valid [OF assms(1,2,3)] d neg q ..
qed

lemma Day_mult_le: "Day t * msPerDay \<le> t"
  unfolding Day_def using div_upper [of msPerDay t] by (simp add: msPerDay_def mult.commute)

lemma Day_mono: "a \<le> b \<Longrightarrow> Day a \<le> Day b"
  unfolding Day_def by (rule zdiv_mono1) (simp_all add: msPerDay_def)

text \<open>
  Claim C5 (boundary exactness). A reference string that parses to a date lying exactly 14,
  30, 31, 90 or 91 whole UTC calendar days before today is classified as \<open>gt14\<close>,
  \<open>gt14\<close>, \<open>gt30\<close>, \<open>gt30\<close> and \<open>gt90\<close>, with that day count. The clock is taken
  to read a time since 1970-01-01T00:00:00Z, which keeps both dates out of the years
  0 to 99 that \<open>Date.UTC\<close> reads as 1900 to 1999.
\<close>

theorem boundary_exactness:
  assumes "s \<noteq> []" "\<not> startsWith s ''0000-00-00''"
    and "newDate parse (isoReferenceDateString s) = Some refDate"
    and "0 \<le> now"
    and "Day now - Day refDate = k"
  shows "(k = 14 \<longrightarrow> getNotificationStatus parse now (Str s) = \<lparr>days = Some 14, status = Gt14\<rparr>)
    \<and> (k = 30 \<longrightarrow> getNotificationStatus parse now (Str s) = \<lparr>days = Some 30, status = Gt14\<rparr>)
    \<and> (k = 31 \<longrightarrow> getNotificationStatus parse now (Str s) = \<lparr>days = Some 31, status = Gt30\<rparr>)
    \<and> (k = 90 \<longrightarrow> getNotificationStatus parse now (Str s) = \<lparr>days = Some 90, status = Gt30\<rparr>)
    \<and> (k = 91 \<longrightarrow> getNotificationStatus parse now (Str s) = \<lparr>days = Some 91, status = Gt90\<rparr>)"
proof -
  have general: "getNotificationStatus parse now (Str s) = \<lparr>days = Some k, status = statusOfDays k\<rparr>"
    if k: "0 \<le> k" "k \<le> 91"
  proof -
    have n: "- 91 * msPerDay \<le> now" using assms(4) unfolding msPerDay_def by simp
    have "0 \<le> Day now" using Day_mono [OF assms(4)] unfolding Day_def by simp
    then have "- 91 \<le> Day refDate" using assms(5) k by simp
    then have "- 91 * msPerDay \<le> Day refDate * msPerDay"
      unfolding msPerDay_def by simp
    then have r: "- 91 * msPerDay \<le> refDate" using Day_mult_le [of refDate] by simp
    have nl: "\<not> Day now < Day refDate" using assms(5) k by simp
    show ?thesis
      unfolding getNotificationStatus_recent [OF assms(1,2,3) n r] using nl assms(5) by simp
  qed
  show ?thesis
    using general unfolding statusOfDays_def by simp
qed

theorem boundary_exactness_witness:
  "''2024-01-01 00:00:00'' \<noteq> [] \<and> \<not> startsWith ''2024-01-01 00:00:00'' ''0000-00-00''
   \<and> newDate parseDateTimeZ (isoReferenceDateString ''2024-01-01 00:00:00'') = Some 1704067200000
   \<and> (0::int) \<le> 1705320000000
   \<and> Day 1705320000000 - Day 1704067200000 = 14
   \<and> getNotificationStatus parseDateTimeZ 1705320000000 (Str ''2024-01-01 00:00:00'')
       = \<lparr>days = Some 14, status = Gt14\<rparr>"
proof -
  have a: "''2024-01-01 00:00:00'' \<noteq> []" by simp
  have b: "\<not> startsWith ''2024-01-01 00:00:00'' ''0000-00-00''" by code_simp
  have c: "newDate parseDateTimeZ (isoReferenceDateString ''2024-01-01 00:00:00'')
      = Some 1704067200000" by code_simp
  have d: "(0::int) \<le> 1705320000000" by simp
  have e: "Day 1705320000000 - Day 1704067200000 = 14" by code_simp
  show ?thesis
    using boundary_exactness [OF a b c d e] a b c d e by simp
qed


section \<open>Buckets, unset references and future references\<close>

text \<open>
  Claim C8 (bucket monotonicity). For non-negative day counts \<open>d1 < d2\<close> the bucket of
  \<open>d2\<close> is at least as severe as the bucket of \<open>d1\<close>, in the order ok, gt14, gt30,
  gt90. \<open>statusOfDays\<close> is the bucket the classifier assigns to the day count it
  returns (lemma \<open>getNotificationStatus_cases\<close>).
\<close>

theorem bucket_monotonicity:
  assumes "0 \<le> d1" "d1 < d2"
  shows "severity (statusOfDays d1) \<le> severity (statusOfDays d2)"
  using assms(2) by (intro statusOfDays_monotone) simp

theorem bucket_monotonicity_witness:
  "(0::int) \<le> 20 \<and> (20::int) < 45
   \<and> severity (statusOfDays 20) = 1 \<and> severity (statusOfDays 45) = 2
   \<and> severity (statusOfDays 20) \<le> severity (statusOfDays 45)"
proof -
  have a: "(0::int) \<le> 20" and b: "(20::int) < 45" by simp_all
  have c: "severity (statusOfDays 20) = 1" "severity (statusOfDays 45) = 2"
    unfolding statusOfDays_def severity_def by simp_all
  show ?thesis using bucket_monotonicity [OF a b] a b c by simp
qed

text \<open>
  Claim C6 (null safety). On an unset or null argument, an empty string, a string that
  starts with the sentinel \<open>0000-00-00\<close>, and a string that the runtime does not parse
  to a date, the classifier returns \<open>{days: null, status: "ok"}\<close>, and the \<open>try\<close> block
  does not throw on any of them. An exception of the \<open>try\<close> block (a TypeError on a
  value that is not a string) is caught and gives the same result, so no input
  throws to the caller.
\<close>

theorem null_safety:
  assumes "v = Nullish
     \<or> (\<exists>s. v = Str s \<and> (s = [] \<or> startsWith s ''0000-00-00''
            \<or> newDate parse (isoReferenceDateString s) = None))"
  shows "getNotificationStatus_try parse now v = Inr \<lparr>days = None, status = Ok\<rparr>
     \<and> getNotificationStatus parse now v = \<lparr>days = None, status = Ok\<rparr>
     \<and> getNotificationStatus parse now NonString = \<lparr>days = None, status = Ok\<rparr>"
  using assms
  unfolding getNotificationStatus_def getNotificationStatus_try_def
  by auto

theorem null_safety_witness:
  "newDate parseDateTimeZ (isoReferenceDateString ''not-a-date'') = None
   \<and> getNotificationStatus parseDateTimeZ 1717200000000 (Str ''not-a-date'')
       = \<lparr>days = None, status = Ok\<rparr>
   \<and> getNotificationStatus parseDateTimeZ 1717200000000 (Str ''0000-00-00 00:00:00'')
       = \<lparr>days = None, status = Ok\<rparr>
   \<and> getNotificationStatus parseDateTimeZ 1717200000000 (Str '''')
       = \<lparr>days = None, status = Ok\<rparr>
   \<and> getNotificationStatus parseDateTimeZ 1717200000000 Nullish
       = \<lparr>days = None, status = Ok\<rparr>"
proof -
  have a: "newDate parseDateTimeZ (isoReferenceDateString ''not-a-date'') = None"
    by code_simp
  have b: "startsWith ''0000-00-00 00:00:00'' ''0000-00-00''" by code_simp
  show ?thesis
    using a
      null_safety [of "Str ''not-a-date''" parseDateTimeZ 1717200000000]
      null_safety [of "Str ''0000-00-00 00:00:00''" parseDateTimeZ 1717200000000]
      null_safety [of "Str ''''" parseDateTimeZ 1717200000000]
      null_safety [of Nullish parseDateTimeZ 1717200000000] b
    by simp
qed

text \<open>
  Claim C7 (future-date safety). The day count the classifier returns is never
  negative. A reference string that parses to a date after the present instant gives
  \<open>{days: 0, status: "ok"}\<close>; the clock is taken to read a time since
  1970-01-01T00:00:00Z (see C5).
\<close>

theorem future_date_safety:
  "(days (getNotificationStatus parse now v) = Some d \<longrightarrow> 0 \<le> d)
   \<and> (s \<noteq> [] \<and> \<not> startsWith s ''0000-00-00''
        \<and> newDate parse (isoReferenceDateString s) = Some refDate
        \<and> 0 \<le> now \<and> now < refDate
      \<longrightarrow> getNotificationStatus parse now (Str s) = \<lparr>days = Some 0, status = Ok\<rparr>)"
proof (intro conjI impI)
  assume "days (getNotificationStatus parse now v) = Some d"
  then show "0 \<le> d"
    using getNotificationStatus_cases [of parse now v] by auto
next
  assume h: "s \<noteq> [] \<and> \<not> startsWith s ''0000-00-00''
        \<and> newDate parse (isoReferenceDateString s) = Some refDate
        \<and> 0 \<le> now \<and> now < refDate"
  then have n: "- 91 * msPerDay \<le> now" and r: "- 91 * msPerDay \<le> refDate"
    unfolding msPerDay_def by simp_all
  have le: "Day now \<le> Day refDate" using h by (intro Day_mono) simp
  have z: "statusOfDays 0 = Ok" unfolding statusOfDays_def by simp
  have "getNotificationStatus parse now (Str s) =
     (if Day now < Day refDate then \<lparr>days = Some 0, status = Ok\<rparr>
      else \<lparr>days = Some (Day now - Day refDate),
            status = statusOfDays (Day now - Day refDate)\<rparr>)"
    using h by (intro getNotificationStatus_recent [OF _ _ _ n r]) simp_all
  then show "getNotificationStatus parse now (Str s) = \<lparr>days = Some 0, status = Ok\<rparr>"
    using le z by (cases "Day now < Day refDate") simp_all
qed

theorem future_date_safety_witness:
  "newDate parseDateTimeZ (isoReferenceDateString ''2024-06-02 08:30:00'') = Some 1717317000000
   \<and> (0::int) \<le> 1717200000000 \<and> (1717200000000::int) < 1717317000000
   \<and> getNotificationStatus parseDateTimeZ 1717200000000 (Str ''2024-06-02 08:30:00'')
       = \<lparr>days = Some 0, status = Ok\<rparr>"
proof -
  have a: "''2024-06-02 08:30:00'' \<noteq> []" by simp
  have b: "\<not> startsWith ''2024-06-02 08:30:00'' ''0000-00-00''" by code_simp
  have c: "newDate parseDateTimeZ (isoReferenceDateString ''2024-06-02 08:30:00'')
      = Some 1717317000000" by code_simp
  show ?thesis
    using future_date_safety [of parseDateTimeZ 1717200000000 Nullish 0
        "''2024-06-02 08:30:00''" 1717317000000] a b c
    by simp
qed


section \<open>The sidebar's classifier and the list's\<close>

lemma isoReferenceDateString_plain:
  assumes "\<not> includes_char s CHR ''T''" "\<not> endsWith s ''Z''"
  shows "isoReferenceDateString s = replace s CHR '' '' CHR ''T'' @ ''Z''"
  using assms unfolding isoReferenceDateString_def by simp

lemma badge_Str:
  assumes "newDate parse (replace s CHR '' '' CHR ''T'' @ ''Z'') = newDate parse (isoReferenceDateString s)"
  shows "getNotificationStatusForBadge parse now (Str s)
     = Inr (status (getNotificationStatus parse now (Str s)))"
  using assms
  unfolding getNotificationStatusForBadge_def getNotificationStatus_def
    getNotificationStatus_try_def statusOfDays_def Let_def
  by (simp split: option.split)

text \<open>
  Claim C1, as amended (consistency of the call sites). On an unset argument and on
  every string that has no \<open>T\<close> and does not end in \<open>Z\<close>, the server's
  \<open>YYYY-MM-DD HH:MM:SS\<close> among them, the sidebar's \<open>getNotificationStatusForBadge\<close> and
  the list's \<open>getNotificationStatus\<close> return the same bucket, for every parser and
  every instant. The dashboard metrics component calls no classifier: it shows the
  counts the server sends.
\<close>

theorem badge_agrees_with_list:
  assumes "v = Nullish
     \<or> (\<exists>s. v = Str s \<and> \<not> includes_char s CHR ''T'' \<and> \<not> endsWith s ''Z'')"
  shows "getNotificationStatusForBadge parse now v
     = Inr (status (getNotificationStatus parse now v))"
proof (cases "v = Nullish")
  case True
  then show ?thesis
    unfolding getNotificationStatusForBadge_def getNotificationStatus_def
      getNotificationStatus_try_def by simp
next
  case False
  then obtain s where s: "v = Str s" "\<not> includes_char s CHR ''T''" "\<not> endsWith s ''Z''"
    using assms by auto
  show ?thesis
    unfolding s(1) by (rule badge_Str) (simp add: isoReferenceDateString_plain [OF s(2,3)])
qed

theorem badge_agrees_with_list_witness:
  "\<not> includes_char ''2024-01-01 00:00:00'' CHR ''T'' \<and> \<not> endsWith ''2024-01-01 00:00:00'' ''Z''
   \<and> getNotificationStatusForBadge parseDateTimeZ 1717200000000 (Str ''2024-01-01 00:00:00'')
       = Inr Gt90
   \<and> status (getNotificationStatus parseDateTimeZ 1717200000000 (Str ''2024-01-01 00:00:00''))
       = Gt90"
proof -
  have a: "\<not> includes_char ''2024-01-01 00:00:00'' CHR ''T''" by code_simp
  have b: "\<not> endsWith ''2024-01-01 00:00:00'' ''Z''" by code_simp
  have c: "status (getNotificationStatus parseDateTimeZ 1717200000000
      (Str ''2024-01-01 00:00:00'')) = Gt90" by code_simp
  show ?thesis
    using badge_agrees_with_list [of "Str ''2024-01-01 00:00:00''" parseDateTimeZ 1717200000000]
      a b c by simp
qed

text \<open>
  Claim C1 as stated fails on an ISO string: on \<open>2024-01-01T00:00:00Z\<close>, evaluated on
  2024-06-01, the list parses the string as it is and answers \<open>gt90\<close>, while the
  sidebar appends a second \<open>Z\<close>, gets an invalid date and answers \<open>ok\<close>.
\<close>

theorem badge_differs_on_iso_string:
  "getNotificationStatusForBadge parseDateTimeZ 1717200000000 (Str ''2024-01-01T00:00:00Z'')
     = Inr Ok
   \<and> status (getNotificationStatus parseDateTimeZ 1717200000000 (Str ''2024-01-01T00:00:00Z''))
     = Gt90"
  by code_simp


section \<open>The optimistic update\<close>

lemma filter_other_ids:
  "\<forall>x \<in> set xs. item_id x \<noteq> i \<Longrightarrow> filter (\<lambda>item. item_id item \<noteq> i) xs = xs"
  by (induction xs) simp_all

lemma map_other_ids:
  "\<forall>x \<in> set xs. item_id x \<noteq> i
   \<Longrightarrow> map (\<lambda>item. if item_id item = i then f item else item) xs = xs"
  by (induction xs) simp_all

text \<open>
  Claim C10 (no matching item). When no item of the collection has the target's
  identifier, the update returns the collection as it is, whatever the quantities.
\<close>

theorem update_without_match:
  assumes "\<forall>x \<in> set prevData. item_id x \<noteq> item_id selected"
  shows "optimisticUpdate selected d prevData = prevData"
  using assms unfolding optimisticUpdate_def Let_def
  by (simp add: filter_other_ids map_other_ids)

theorem update_without_match_witness:
  "item_id (sampleItem ''P1'' 5) \<noteq> item_id (sampleItem ''P9'' 4)
   \<and> item_id (sampleItem ''P2'' 7) \<noteq> item_id (sampleItem ''P9'' 4)
   \<and> optimisticUpdate (sampleItem ''P9'' 4) 4 [sampleItem ''P1'' 5, sampleItem ''P2'' 7]
       = [sampleItem ''P1'' 5, sampleItem ''P2'' 7]
   \<and> optimisticUpdate (sampleItem ''P9'' 4) 1 [sampleItem ''P1'' 5, sampleItem ''P2'' 7]
       = [sampleItem ''P1'' 5, sampleItem ''P2'' 7]"
proof -
  have a: "\<forall>x \<in> set [sampleItem ''P1'' 5, sampleItem ''P2'' 7].
      item_id x \<noteq> item_id (sampleItem ''P9'' 4)"
    by (simp add: sampleItem_def)
  show ?thesis
    using update_without_match [OF a, of 4] update_without_match [OF a, of 1] a by simp
qed

text \<open>
  Claim C2 (reconciliation). The target is the one item of the collection with its
  identifier, so the collection is \<open>pre @ target # post\<close> and no item of \<open>pre\<close> or
  \<open>post\<close> has that identifier. With \<open>q\<close> the target's quantity and \<open>d\<close> the quantity
  changed, both safe integers, so that the code's subtraction is exact: if
  \<open>q - d \<le> 0\<close> the result is \<open>pre @ post\<close>; otherwise it is the collection with the
  target's quantity set to \<open>q - d\<close>, nothing else touched, order kept.
\<close>

theorem update_of_target:
  assumes "\<forall>x \<in> set (pre @ post). item_id x \<noteq> item_id target"
    and "0 < d" "d \<le> quantity target"
    and "isSafeInteger (quantity target)" "isSafeInteger d"
  shows "optimisticUpdate target d (pre @ target # post) =
     (if quantity target - d \<le> 0 then pre @ post
      else pre @ target\<lparr>quantity := quantity target - d\<rparr> # post)"
proof -
  have pre: "\<forall>x \<in> set pre. item_id x \<noteq> item_id target"
    and post: "\<forall>x \<in> set post. item_id x \<noteq> item_id target"
    using assms(1) by simp_all
  show ?thesis
    unfolding optimisticUpdate_def Let_def
    by (simp add: filter_other_ids [OF pre] filter_other_ids [OF post]
        map_other_ids [OF pre] map_other_ids [OF post])
qed

theorem update_of_target_witness:
  "item_id (sampleItem ''P0'' 1) \<noteq> item_id (sampleItem ''P1'' 5)
   \<and> item_id (sampleItem ''P2'' 7) \<noteq> item_id (sampleItem ''P1'' 5)
   \<and> (0::rat) < 3 \<and> 3 \<le> quantity (sampleItem ''P1'' 5)
   \<and> isSafeInteger (quantity (sampleItem ''P1'' 5)) \<and> isSafeInteger 3 \<and> isSafeInteger 5
   \<and> optimisticUpdate (sampleItem ''P1'' 5) 3
        [sampleItem ''P0'' 1, sampleItem ''P1'' 5, sampleItem ''P2'' 7]
      = [sampleItem ''P0'' 1, sampleItem ''P1'' 2, sampleItem ''P2'' 7]
   \<and> optimisticUpdate (sampleItem ''P1'' 5) 5
        [sampleItem ''P0'' 1, sampleItem ''P1'' 5, sampleItem ''P2'' 7]
      = [sampleItem ''P0'' 1, sampleItem ''P2'' 7]"
proof -
  have a: "\<forall>x \<in> set ([sampleItem ''P0'' 1] @ [sampleItem ''P2'' 7]).
      item_id x \<noteq> item_id (sampleItem ''P1'' 5)"
    by (simp add: sampleItem_def)
  have b: "(0::rat) < 3" "3 \<le> quantity (sampleItem ''P1'' 5)"
    and c: "(0::rat) < 5" "5 \<le> quantity (sampleItem ''P1'' 5)"
    by (simp_all add: sampleItem_def)
  have i: "isSafeInteger (quantity (sampleItem ''P1'' 5))" "isSafeInteger 3"
    "isSafeInteger 5"
    by (simp_all add: isSafeInteger_def sampleItem_def)
  show ?thesis
    using update_of_target [OF a b i(1,2)] update_of_target [OF a c i(1,3)] a b i
    by (simp add: sampleItem_def)
qed

section \<open>Actionable items\<close>

lemma optimisticUpdate_actionable:
  assumes "\<forall>x \<in> set prevData. actionable x"
  shows "\<forall>x \<in> set (optimisticUpdate selected d prevData). actionable x"
  using assms unfolding optimisticUpdate_def Let_def actionable_def
  by auto

lemma fetchData_actionable:
  "\<forall>x \<in> set (allData (fetchData parse now st spinner response)). actionable x"
  unfolding fetchData_def Let_def actionable_def
  by (auto split: sum.splits)

lemma fetchData_list_actionable:
  "\<forall>x \<in> set (allData (fetchData_list mapApiToState st spinner response)). actionable x"
  unfolding fetchData_list_def Let_def actionable_def
  by (auto split: sum.splits)

lemma handlePostEventApiAction_allData:
  "allData (fst (handlePostEventApiAction st desc d response)) =
     (case actionItem st of
        None \<Rightarrow> allData st
      | Some item \<Rightarrow>
          (case postFailure desc response of
             Some err \<Rightarrow> allData st
           | None \<Rightarrow> optimisticUpdate item d (allData st)))"
  unfolding handlePostEventApiAction_def Let_def closeModal_def
  by (simp split: option.splits)

lemma handlePostApiAction_allData:
  "allData (fst (handlePostApiAction st desc d response)) =
     (case actionItem st of
        None \<Rightarrow> allData st
      | Some item \<Rightarrow>
          (case postFailure desc response of
             Some err \<Rightarrow> allData st
           | None \<Rightarrow> optimisticUpdate item d (allData st)))"
  unfolding handlePostApiAction_def Let_def closeModal_list_def
  by (simp split: option.splits)

text \<open>
  Claim C9 (actionable items). Every item of the notification list and of the part
  list has an approver and a positive quantity: after every fetch, whatever the
  response, and after every run of the POST handlers and their optimistic update,
  if it held before.
\<close>

theorem actionable_invariant:
  "(\<forall>x \<in> set (allData (fetchData parse now st spinner response)). actionable x)
   \<and> (\<forall>x \<in> set (allData (fetchData_list mapApiToState lst spinner response)). actionable x)
   \<and> ((\<forall>x \<in> set prevData. actionable x)
        \<longrightarrow> (\<forall>x \<in> set (optimisticUpdate selected d prevData). actionable x))
   \<and> ((\<forall>x \<in> set (allData st). actionable x)
        \<longrightarrow> (\<forall>x \<in> set (allData (fst (handlePostEventApiAction st desc d answer))).
              actionable x))
   \<and> ((\<forall>x \<in> set (allData lst). actionable x)
        \<longrightarrow> (\<forall>x \<in> set (allData (fst (handlePostApiAction lst desc d answer))).
              actionable x))"
proof (intro conjI impI)
  show "\<forall>x \<in> set (allData (fetchData parse now st spinner response)). actionable x"
    by (rule fetchData_actionable)
  show "\<forall>x \<in> set (allData (fetchData_list mapApiToState lst spinner response)). actionable x"
    by (rule fetchData_list_actionable)
next
  assume "\<forall>x \<in> set prevData. actionable x"
  then show "\<forall>x \<in> set (optimisticUpdate selected d prevData). actionable x"
    by (rule optimisticUpdate_actionable)
next
  assume a: "\<forall>x \<in> set (allData st). actionable x"
  show "\<forall>x \<in> set (allData (fst (handlePostEventApiAction st desc d answer))). actionable x"
    unfolding handlePostEventApiAction_allData
    using a optimisticUpdate_actionable [OF a] by (simp split: option.splits)
next
  assume a: "\<forall>x \<in> set (allData lst). actionable x"
  show "\<forall>x \<in> set (allData (fst (handlePostApiAction lst desc d answer))). actionable x"
    unfolding handlePostApiAction_allData
    using a optimisticUpdate_actionable [OF a] by (simp split: option.splits)
qed


theorem actionable_invariant_witness:
  "allData (fetchData parseDateTimeZ 1717200000000 openPage True
      (PartsBody (Some ''success'')
         (ItemsArray [sampleApiItem ''P1'' (Some 5) (Some ''U1''),
                      sampleApiItem ''P3'' (Some 0) (Some ''U1''),
                      sampleApiItem ''P4'' (Some 2) None]) None))
     = [sampleNotification ''P1'' 5]
   \<and> actionable (sampleNotification ''P1'' 5)
   \<and> actionable (sampleNotification ''P2'' 7)
   \<and> allData openPage = [sampleNotification ''P1'' 5, sampleNotification ''P2'' 7]
   \<and> allData (fst (handlePostEventApiAction openPage ''issue out item'' 3
        (Response True 200 (Some ''success'') None)))
     = [sampleNotification ''P1'' 2, sampleNotification ''P2'' 7]
   \<and> actionable (sampleNotification ''P1'' 2)"
proof -
  have f: "allData (fetchData parseDateTimeZ 1717200000000 openPage True
      (PartsBody (Some ''success'')
         (ItemsArray [sampleApiItem ''P1'' (Some 5) (Some ''U1''),
                      sampleApiItem ''P3'' (Some 0) (Some ''U1''),
                      sampleApiItem ''P4'' (Some 2) None]) None))
     = [sampleNotification ''P1'' 5]"
    by code_simp
  have a: "\<forall>x \<in> set (allData openPage). actionable x"
    by (simp add: openPage_def actionable_def sampleNotification_def)
  have u: "allData (fst (handlePostEventApiAction openPage ''issue out item'' 3
        (Response True 200 (Some ''success'') None)))
     = [sampleNotification ''P1'' 2, sampleNotification ''P2'' 7]"
    by code_simp
  show ?thesis
    using actionable_invariant [where parse = parseDateTimeZ and now = 1717200000000
        and st = openPage and spinner = True
        and response = "PartsBody (Some ''success'')
         (ItemsArray [sampleApiItem ''P1'' (Some 5) (Some ''U1''),
                      sampleApiItem ''P3'' (Some 0) (Some ''U1''),
                      sampleApiItem ''P4'' (Some 2) None]) None"
        and desc = "''issue out item''" and d = 3
        and answer = "Response True 200 (Some ''success'') None"
        and prevData = "[] :: item list" and lst = openListPage]
      a
    unfolding f u by (simp add: openPage_def)
qed


section \<open>A failed remote call, and validation before the request\<close>

lemma failed_post_keeps_collection:
  assumes "postFailure desc response = Some err"
  shows "allData (fst (handlePostEventApiAction st desc d response)) = allData st"
    and "allData (fst (handlePostApiAction lst desc d response)) = allData lst"
  unfolding handlePostEventApiAction_allData handlePostApiAction_allData
  using assms by (simp_all split: option.splits)

lemma failed_post_sets_error:
  assumes "postFailure desc response = Some err"
  shows "actionItem st \<noteq> None \<Longrightarrow>
      error (fst (handlePostEventApiAction st desc d response)) = Some err
      \<and> snd (handlePostEventApiAction st desc d response) = Some err"
    and "actionItem lst \<noteq> None \<Longrightarrow>
      error (fst (handlePostApiAction lst desc d response)) = Some err
      \<and> snd (handlePostApiAction lst desc d response) = Some err"
  using assms unfolding handlePostEventApiAction_def handlePostApiAction_def Let_def
  by auto

lemma failed_post_error_not_rendered:
  assumes "postFailure desc response = Some err"
  shows "isIssueOutModalOpen st \<or> isDamageModalOpen st \<Longrightarrow>
      \<not> errorVisible (fst (handlePostEventApiAction st desc d response))"
    and "isIssueOutModalOpen lst \<or> isDamageModalOpen lst \<Longrightarrow>
      \<not> errorVisible_list (fst (handlePostApiAction lst desc d response))"
  using assms
  unfolding handlePostEventApiAction_def handlePostApiAction_def Let_def
    errorVisible_def errorVisible_list_def errorBannerShown_def errorBannerShown_list_def
    issueOutModalRendered_def damageModalRendered_def editModalRendered_def
  by (auto split: option.splits)

text \<open>
  Claim C3 (a failed remote call), evaluated where it fails. The issue-out modal is
  open on \<open>P1\<close> and the server answers 500 without a body message. On both pages the
  collection stays as it was, the page's error state holds the message and the
  handler rethrows it; but no error is on the screen afterwards: the handler's
  \<open>finally\<close> clears \<open>actionItem\<close>, which removes the modal, and the modal's flag, still
  set, hides the page's banner.
\<close>

theorem failed_issue_out_leaves_no_visible_error:
  "allData (fst (handlePostEventApiAction openPage ''issue out item'' 3
       (Response False 500 None None))) = allData openPage
   \<and> error (fst (handlePostEventApiAction openPage ''issue out item'' 3
       (Response False 500 None None))) = Some (ApiError ''issue out item'' 500)
   \<and> snd (handlePostEventApiAction openPage ''issue out item'' 3
       (Response False 500 None None)) = Some (ApiError ''issue out item'' 500)
   \<and> \<not> errorVisible (fst (handlePostEventApiAction openPage ''issue out item'' 3
       (Response False 500 None None)))
   \<and> allData (fst (handlePostApiAction openListPage ''issue out item'' 3
       (Response False 500 None None))) = allData openListPage
   \<and> error (fst (handlePostApiAction openListPage ''issue out item'' 3
       (Response False 500 None None))) = Some (ApiError ''issue out item'' 500)
   \<and> \<not> errorVisible_list (fst (handlePostApiAction openListPage ''issue out item'' 3
       (Response False 500 None None)))"
proof -
  have f: "postFailure ''issue out item'' (Response False 500 None None)
      = Some (ApiError ''issue out item'' 500)"
    by (simp add: postFailure_def orElse_def)
  have a: "actionItem openPage \<noteq> None" "isIssueOutModalOpen openPage \<or> isDamageModalOpen openPage"
    by (simp_all add: openPage_def)
  have b: "actionItem openListPage \<noteq> None"
    "isIssueOutModalOpen openListPage \<or> isDamageModalOpen openListPage"
    by (simp_all add: openListPage_def)
  show ?thesis
    using failed_post_keeps_collection(1) [OF f, where st = openPage and d = 3]
      failed_post_keeps_collection(2) [OF f, where lst = openListPage and d = 3]
      failed_post_sets_error(1) [OF f a(1), where d = 3]
      failed_post_sets_error(2) [OF f b(1), where d = 3]
      failed_post_error_not_rendered(1) [OF f a(2), where d = 3]
      failed_post_error_not_rendered(2) [OF f b(2), where d = 3]
    by simp
qed










text \<open>
  A submission that meets every check is sent: 3 of the 5 in stock, by a known user.
\<close>

lemma valid_submission_is_sent:
  "submitIssueOut openPage (Some ''U7'') (Some 3) ''spare''
     = Inr \<lparr>apiUrl = ISSUE_API_URL, payload_part_id = ''P1'', payload_quantity = 3,
            payload_remarks = Some ''spare'', actionDesc = ''issue out item'',
            quantityChanged = 3\<rparr>"
  by (simp add: submitIssueOut_def quantityFieldViolation_def Number_quantity_def
      IssueOutItemModal_handleSubmit_def handleIssueOutSubmitForNotification_def
      openPage_def itemDataOf_def sampleNotification_def trim_def isWhiteSpace_def)

end
